theory Spec2Isabelle
  imports Main
begin

section \<open>JSON values and Python dictionaries\<close>

text \<open>
  The handlers of \<^verbatim>\<open>memory_api.py\<close> store and return Python dictionaries whose values are
  JSON data. A dictionary is an association list in insertion order with pairwise distinct
  keys. Strings are sequences of UTF-8 bytes. Numbers that are not integers are left out of
  \<open>json\<close>: no handler inspects a slot value, it only stores and returns it.
\<close>

datatype json =
    JNull
  | JBool bool
  | JInt int
  | JStr string
  | JList "json list"
  | JObj "(string \<times> json) list"

text \<open>\<^verbatim>\<open>k in d\<close>\<close>

definition dict_contains :: "'k \<Rightarrow> ('k \<times> 'v) list \<Rightarrow> bool" where
  "dict_contains k d = (map_of d k \<noteq> None)"

text \<open>\<^verbatim>\<open>list(d.keys())\<close> and \<^verbatim>\<open>len(d)\<close>\<close>

definition dict_keys :: "('k \<times> 'v) list \<Rightarrow> 'k list" where
  "dict_keys d = map fst d"

definition dict_len :: "('k \<times> 'v) list \<Rightarrow> int" where
  "dict_len d = int (length d)"

text \<open>
  \<^verbatim>\<open>d[k] = v\<close>: an existing key keeps its position and gets the new value, a new key is
  appended.
\<close>

fun dict_setitem :: "('k \<times> 'v) list \<Rightarrow> 'k \<Rightarrow> 'v \<Rightarrow> ('k \<times> 'v) list" where
  "dict_setitem [] k v = [(k, v)]"
| "dict_setitem ((k', v') # d) k v =
     (if k' = k then (k', v) # d else (k', v') # dict_setitem d k v)"

text \<open>\<^verbatim>\<open>d.update(other)\<close>: the items of \<open>other\<close> are assigned in their order.\<close>

fun dict_update :: "('k \<times> 'v) list \<Rightarrow> ('k \<times> 'v) list \<Rightarrow> ('k \<times> 'v) list" where
  "dict_update d [] = d"
| "dict_update d ((k, v) # other) = dict_update (dict_setitem d k v) other"

text \<open>\<^verbatim>\<open>sep.join(xs)\<close>\<close>

fun str_join :: "string \<Rightarrow> string list \<Rightarrow> string" where
  "str_join sep [] = []"
| "str_join sep [x] = x"
| "str_join sep (x # y # ys) = x @ sep @ str_join sep (y # ys)"

text \<open>The two characters of the source outside ASCII, in UTF-8: U+20B9 and U+2022.\<close>

definition rupee :: string where
  "rupee = [CHR 0xE2, CHR 0x82, CHR 0xB9]"

definition bullet :: string where
  "bullet = [CHR 0xE2, CHR 0x80, CHR 0xA2]"

definition newline :: string where
  "newline = [CHR 0x0A]"

section \<open>Models\<close>

text \<open>
  \<^verbatim>\<open>class UserProfile(BaseModel)\<close>. Every dictionary the code puts into
  \<^verbatim>\<open>user_profiles\<close> or returns from \<^verbatim>\<open>get_profile\<close> (the seed literal, the default
  literal and \<^verbatim>\<open>profile.dict()\<close>) has exactly these twelve keys with values of these
  types, so the record stands for the dictionary as well, and \<^verbatim>\<open>profile.dict()\<close> is the
  record itself.
\<close>

record UserProfile =
  user_id :: string
  name :: "string option"
  budget_style :: "string option"
  preferred_transport :: "string option"
  no_early_flights :: bool
  no_late_nights :: bool
  walking_tolerance :: "string option"
  food_preferences :: "string list"
  transport_dislikes :: "string list"
  accommodation_dislikes :: "string list"
  typical_hotel_budget :: "int option"
  total_trips_booked :: int

record TripSlots =
  destination :: "string option"
  start_date :: "string option"
  end_date :: "string option"
  companions :: "string option"
  budget_level :: "string option"
  budget_min :: "int option"
  budget_max :: "int option"
  intent :: "string option"
  constraints :: "string list"

record SessionState =
  session_id :: string
  user_id :: string
  trip_slots :: TripSlots
  clarifier_count :: int
  conversation_stage :: string

record Assumption =
  "text" :: string
  source :: string

text \<open>The dictionary returned by \<^verbatim>\<open>get_assumptions\<close>.\<close>

record AssumptionsResult =
  user_id :: string
  has_assumptions :: bool
  count :: int
  assumptions :: "Assumption list"
  formatted_text :: string

text \<open>\<^verbatim>\<open>Optional[str]\<close> and \<^verbatim>\<open>Optional[int]\<close> fields as JSON values.\<close>

definition json_opt_str :: "string option \<Rightarrow> json" where
  "json_opt_str x = (case x of None \<Rightarrow> JNull | Some s \<Rightarrow> JStr s)"

definition json_opt_int :: "int option \<Rightarrow> json" where
  "json_opt_int x = (case x of None \<Rightarrow> JNull | Some i \<Rightarrow> JInt i)"

text \<open>\<^verbatim>\<open>.dict()\<close> of a \<^verbatim>\<open>TripSlots\<close> and of a \<^verbatim>\<open>SessionState\<close>: the fields in
  declaration order, the nested model converted as well.\<close>

definition TripSlots_dict :: "TripSlots \<Rightarrow> (string \<times> json) list" where
  "TripSlots_dict t =
     [(''destination'', json_opt_str (destination t)),
      (''start_date'', json_opt_str (start_date t)),
      (''end_date'', json_opt_str (end_date t)),
      (''companions'', json_opt_str (companions t)),
      (''budget_level'', json_opt_str (budget_level t)),
      (''budget_min'', json_opt_int (budget_min t)),
      (''budget_max'', json_opt_int (budget_max t)),
      (''intent'', json_opt_str (intent t)),
      (''constraints'', JList (map JStr (constraints t)))]"

definition SessionState_dict :: "SessionState \<Rightarrow> (string \<times> json) list" where
  "SessionState_dict s =
     [(''session_id'', JStr (session_id s)),
      (''user_id'', JStr (SessionState.user_id s)),
      (''trip_slots'', JObj (TripSlots_dict (trip_slots s))),
      (''clarifier_count'', JInt (clarifier_count s)),
      (''conversation_stage'', JStr (conversation_stage s))]"

section \<open>In-memory storage\<close>

text \<open>The two module-level dictionaries \<^verbatim>\<open>user_profiles\<close> and \<^verbatim>\<open>sessions\<close>.\<close>

record store =
  user_profiles :: "(string \<times> UserProfile) list"
  sessions :: "(string \<times> (string \<times> json) list) list"

definition empty_store :: store where
  "empty_store = \<lparr>user_profiles = [], sessions = []\<rparr>"

definition sample_profile :: UserProfile where
  "sample_profile =
     \<lparr>UserProfile.user_id = ''user_demo_123'',
      name = Some ''Rahul Kumar'',
      budget_style = Some ''always_budget'',
      preferred_transport = Some ''train'',
      no_early_flights = True,
      no_late_nights = False,
      walking_tolerance = Some ''medium'',
      food_preferences = [''vegetarian''],
      transport_dislikes = [''overnight_bus''],
      accommodation_dislikes = [''shared_bathroom''],
      typical_hotel_budget = Some 1200,
      total_trips_booked = 5\<rparr>"

definition init_sample_data :: "store \<Rightarrow> store" where
  "init_sample_data st =
     st\<lparr>user_profiles := dict_setitem (user_profiles st) ''user_demo_123'' sample_profile\<rparr>"

text \<open>The state of the module after it has been loaded.\<close>

definition initial_store :: store where
  "initial_store = init_sample_data empty_store"

section \<open>Endpoints\<close>

datatype error =
    HTTPException nat string
  | KeyError string
  | AttributeError string

definition root :: json where
  "root =
     JObj [(''message'', JStr ''Travel Memory API''),
           (''version'', JStr ''1.0.0''),
           (''endpoints'',
              JObj [(''profile'', JStr ''GET /profile/{user_id}''),
                    (''assumptions'', JStr ''GET /profile/{user_id}/assumptions''),
                    (''update_profile'', JStr ''POST /profile/{user_id}''),
                    (''session'', JStr ''GET/POST /session/{session_id}'')])]"

definition default_profile :: "string \<Rightarrow> UserProfile" where
  "default_profile uid =
     \<lparr>UserProfile.user_id = uid,
      name = None,
      budget_style = Some ''mixed'',
      preferred_transport = None,
      no_early_flights = False,
      no_late_nights = False,
      walking_tolerance = Some ''medium'',
      food_preferences = [],
      transport_dislikes = [],
      accommodation_dislikes = [],
      typical_hotel_budget = None,
      total_trips_booked = 0\<rparr>"

text \<open>
  \<^verbatim>\<open>get_profile\<close>. The membership test and the subscript read the same key, so they are
  one lookup. The handler assigns nothing: it is a function of the store.
\<close>

definition get_profile :: "string \<Rightarrow> store \<Rightarrow> UserProfile" where
  "get_profile uid st =
     (case map_of (user_profiles st) uid of
        None \<Rightarrow> default_profile uid
      | Some p \<Rightarrow> p)"

definition update_profile :: "string \<Rightarrow> UserProfile \<Rightarrow> store \<Rightarrow> json \<times> store" where
  "update_profile uid profile st =
     (JObj [(''status'', JStr ''success''),
            (''message'', JStr ''Profile saved''),
            (''user_id'', JStr uid)],
      st\<lparr>user_profiles := dict_setitem (user_profiles st) uid profile\<rparr>)"

text \<open>Truth value of an \<^verbatim>\<open>Optional[str]\<close>: \<^verbatim>\<open>None\<close> and the empty string are false.\<close>

definition truthy_opt_str :: "string option \<Rightarrow> bool" where
  "truthy_opt_str x = (case x of None \<Rightarrow> False | Some s \<Rightarrow> s \<noteq> [])"

text \<open>\<^verbatim>\<open>str(x)\<close> of an \<^verbatim>\<open>Optional[str]\<close>, as the f-string formats it.\<close>

definition str_opt_str :: "string option \<Rightarrow> string" where
  "str_opt_str x = (case x of None \<Rightarrow> ''None'' | Some s \<Rightarrow> s)"

text \<open>The list \<^verbatim>\<open>assumptions\<close> of \<^verbatim>\<open>get_assumptions\<close>, built by its seven blocks in turn.\<close>

definition collect_assumptions :: "UserProfile \<Rightarrow> Assumption list" where
  "collect_assumptions profile =
     (let a0 = [];
          a1 = (if no_early_flights profile
                then a0 @ [\<lparr>text = ''I'll avoid early morning departures'',
                            source = ''profile_preference''\<rparr>] else a0);
          a2 = (if no_late_nights profile
                then a1 @ [\<lparr>text = ''I'll avoid late night travel'',
                            source = ''profile_preference''\<rparr>] else a1);
          a3 = (if truthy_opt_str (preferred_transport profile)
                then a2 @ [\<lparr>text = ''Prioritizing '' @ str_opt_str (preferred_transport profile) @ '' when possible'',
                            source = ''profile_preference''\<rparr>]
                else a2);
          bs = budget_style profile;
          a4 = (if bs = Some ''always_budget''
                then a3 @ [\<lparr>text = ''Budget hotels ('' @ rupee @ ''800-1500/night)'',
                            source = ''profile_preference''\<rparr>]
                else if bs = Some ''mid_range''
                then a3 @ [\<lparr>text = ''Mid-range hotels ('' @ rupee @ ''2000-4000/night)'',
                            source = ''profile_preference''\<rparr>]
                else if bs = Some ''luxury''
                then a3 @ [\<lparr>text = ''Premium hotels ('' @ rupee @ ''5000+/night)'',
                            source = ''profile_preference''\<rparr>]
                else a3);
          walking = walking_tolerance profile;
          a5 = (if walking = Some ''low''
                then a4 @ [\<lparr>text = ''Minimizing walking (max 2km/day)'',
                            source = ''profile_preference''\<rparr>]
                else if walking = Some ''high''
                then a4 @ [\<lparr>text = ''Comfortable with long walks (5-8km/day)'',
                            source = ''profile_preference''\<rparr>]
                else a4);
          food_prefs = food_preferences profile;
          a6 = (if food_prefs \<noteq> []
                then a5 @ [\<lparr>text = ''Food preferences: '' @ str_join '', '' food_prefs,
                            source = ''profile_preference''\<rparr>]
                else a5);
          dislikes = transport_dislikes profile;
          a7 = (if dislikes \<noteq> []
                then a6 @ [\<lparr>text = ''Avoiding: '' @ str_join '', '' dislikes,
                            source = ''profile_preference''\<rparr>]
                else a6)
      in a7)"

definition get_assumptions :: "string \<Rightarrow> store \<Rightarrow> AssumptionsResult" where
  "get_assumptions uid st =
     (let profile = get_profile uid st;
          found = collect_assumptions profile
      in if found \<noteq> []
         then \<lparr>AssumptionsResult.user_id = uid,
               has_assumptions = True,
               count = int (length found),
               assumptions = found,
               formatted_text =
                 str_join newline (map (\<lambda>a. bullet @ '' '' @ text a) found)\<rparr>
         else \<lparr>AssumptionsResult.user_id = uid,
               has_assumptions = False,
               count = 0,
               assumptions = [],
               formatted_text = ''No previous preferences found. Let's start fresh!''\<rparr>)"

definition update_session :: "SessionState \<Rightarrow> store \<Rightarrow> json \<times> store" where
  "update_session session st =
     (JObj [(''status'', JStr ''success''),
            (''message'', JStr ''Session saved''),
            (''session_id'', JStr (session_id session))],
      st\<lparr>sessions := dict_setitem (sessions st) (session_id session)
                         (SessionState_dict session)\<rparr>)"

definition default_session :: "string \<Rightarrow> (string \<times> json) list" where
  "default_session sid =
     [(''session_id'', JStr sid),
      (''user_id'', JNull),
      (''trip_slots'', JObj []),
      (''clarifier_count'', JInt 0),
      (''conversation_stage'', JStr ''clarifying'')]"

definition get_session :: "string \<Rightarrow> store \<Rightarrow> (string \<times> json) list" where
  "get_session sid st =
     (case map_of (sessions st) sid of
        None \<Rightarrow> default_session sid
      | Some s \<Rightarrow> s)"

text \<open>
  \<^verbatim>\<open>update_trip_slots\<close>. \<^verbatim>\<open>session["trip_slots"]\<close> raises \<^verbatim>\<open>KeyError\<close> on a missing key,
  and \<^verbatim>\<open>.update\<close> raises \<^verbatim>\<open>AttributeError\<close> on a JSON value that is no dictionary; an
  exception leaves the store as it was. The update mutates the stored dictionary in place,
  so the session keeps its position and its other keys.
\<close>

definition update_trip_slots ::
    "string \<Rightarrow> (string \<times> json) list \<Rightarrow> store \<Rightarrow> (error + json) \<times> store" where
  "update_trip_slots sid slots st =
     (case map_of (sessions st) sid of
        None \<Rightarrow> (Inl (HTTPException 404 ''Session not found''), st)
      | Some session \<Rightarrow>
          (case map_of session ''trip_slots'' of
             None \<Rightarrow> (Inl (KeyError ''trip_slots''), st)
           | Some v \<Rightarrow>
               (case v of
                  JObj ts \<Rightarrow>
                    (let session' = dict_setitem session ''trip_slots''
                                      (JObj (dict_update ts slots))
                     in (Inr (JObj [(''status'', JStr ''success''),
                                    (''session_id'', JStr sid),
                                    (''updated_slots'', JObj slots)]),
                         st\<lparr>sessions := dict_setitem (sessions st) sid session'\<rparr>))
                | _ \<Rightarrow> (Inl (AttributeError ''update''), st))))"

definition list_users :: "store \<Rightarrow> json" where
  "list_users st =
     JObj [(''count'', JInt (dict_len (user_profiles st))),
           (''users'', JList (map JStr (dict_keys (user_profiles st))))]"

definition reset_data :: "store \<Rightarrow> json \<times> store" where
  "reset_data st =
     (JObj [(''status'', JStr ''success''),
            (''message'', JStr ''All data reset, sample user restored'')],
      init_sample_data (st\<lparr>user_profiles := [], sessions := []\<rparr>))"

text \<open>\<^verbatim>\<open>health\<close>; \<open>now\<close> is the ISO timestamp the handler reads from the clock.\<close>

definition health :: "string \<Rightarrow> store \<Rightarrow> json" where
  "health now st =
     JObj [(''status'', JStr ''healthy''),
           (''timestamp'', JStr now),
           (''users_count'', JInt (dict_len (user_profiles st))),
           (''sessions_count'', JInt (dict_len (sessions st)))]"

section \<open>The HTTP surface\<close>

text \<open>One constructor per route of the application, with the parsed path and body.\<close>

datatype request =
    GetRoot
  | GetProfile string
  | PostProfile string UserProfile
  | GetAssumptions string
  | PostSession SessionState
  | GetSession string
  | PostSlots string "(string \<times> json) list"
  | GetUsers
  | PostReset
  | GetHealth string

datatype response =
    Json json
  | Profile UserProfile
  | Assumptions AssumptionsResult

fun handle :: "request \<Rightarrow> store \<Rightarrow> (error + response) \<times> store" where
  "handle GetRoot st = (Inr (Json root), st)"
| "handle (GetProfile uid) st = (Inr (Profile (get_profile uid st)), st)"
| "handle (PostProfile uid p) st =
     (case update_profile uid p st of (r, st') \<Rightarrow> (Inr (Json r), st'))"
| "handle (GetAssumptions uid) st = (Inr (Assumptions (get_assumptions uid st)), st)"
| "handle (PostSession s) st =
     (case update_session s st of (r, st') \<Rightarrow> (Inr (Json r), st'))"
| "handle (GetSession sid) st = (Inr (Json (JObj (get_session sid st))), st)"
| "handle (PostSlots sid slots) st =
     (case update_trip_slots sid slots st of
        (Inl e, st') \<Rightarrow> (Inl e, st')
      | (Inr r, st') \<Rightarrow> (Inr (Json r), st'))"
| "handle GetUsers st = (Inr (Json (list_users st)), st)"
| "handle PostReset st = (case reset_data st of (r, st') \<Rightarrow> (Inr (Json r), st'))"
| "handle (GetHealth now) st = (Inr (Json (health now st)), st)"

text \<open>The store after a sequence of requests, served one after the other.\<close>

fun run :: "request list \<Rightarrow> store \<Rightarrow> store" where
  "run [] st = st"
| "run (r # rs) st = run rs (snd (handle r st))"

text \<open>Every stored session has a dictionary under \<^verbatim>\<open>"trip_slots"\<close>.\<close>

definition has_slots_dict :: "(string \<times> json) list \<Rightarrow> bool" where
  "has_slots_dict session =
     (case map_of session ''trip_slots'' of Some (JObj ts) \<Rightarrow> True | _ \<Rightarrow> False)"

definition sessions_ok :: "store \<Rightarrow> bool" where
  "sessions_ok st = list_all (\<lambda>(sid, session). has_slots_dict session) (sessions st)"

text \<open>The dictionary stored under \<^verbatim>\<open>sessions[sid]["trip_slots"]\<close>, if there is one.\<close>

definition stored_trip_slots :: "store \<Rightarrow> string \<Rightarrow> (string \<times> json) list option" where
  "stored_trip_slots st sid =
     (case map_of (sessions st) sid of
        None \<Rightarrow> None
      | Some session \<Rightarrow>
          (case map_of session ''trip_slots'' of Some (JObj ts) \<Rightarrow> Some ts | _ \<Rightarrow> None))"

text \<open>The requests that read a profile or a session.\<close>

fun is_store_read :: "request \<Rightarrow> bool" where
  "is_store_read (GetProfile uid) = True"
| "is_store_read (GetSession sid) = True"
| "is_store_read r = False"

text \<open>The keys of each of the two dictionaries are pairwise distinct, so that the
  length of the list is \<^verbatim>\<open>len\<close> of the dictionary.\<close>

definition keys_distinct :: "store \<Rightarrow> bool" where
  "keys_distinct st =
     (distinct (dict_keys (user_profiles st)) \<and> distinct (dict_keys (sessions st)))"

text \<open>Example data: a session as a client posts it, and a slot update.\<close>

definition demo_session :: SessionState where
  "demo_session =
     \<lparr>session_id = ''s1'',
      user_id = ''user_demo_123'',
      trip_slots =
        \<lparr>destination = None, start_date = None, end_date = None, companions = None,
         budget_level = Some ''mid'', budget_min = None, budget_max = None, intent = None,
         constraints = []\<rparr>,
      clarifier_count = 0,
      conversation_stage = ''clarifying''\<rparr>"

definition demo_slots :: "(string \<times> json) list" where
  "demo_slots = [(''destination'', JStr ''Goa''), (''pace'', JStr ''slow'')]"

section \<open>Dictionary lemmas\<close>

lemma lookup_dict_setitem:
  "map_of (dict_setitem d k v) k' = (if k' = k then Some v else map_of d k')"
  by (induction d) auto

lemma map_of_dict_setitem: "map_of (dict_setitem d k v) = (map_of d)(k \<mapsto> v)"
  by (rule ext) (simp add: lookup_dict_setitem)

lemma map_of_dict_update:
  "distinct (map fst other) \<Longrightarrow> map_of (dict_update d other) = map_of d ++ map_of other"
proof (induction other arbitrary: d)
  case Nil
  then show ?case by simp
next
  case (Cons kv other)
  obtain k v where kv: "kv = (k, v)" by (cases kv)
  from Cons.prems kv have fresh: "map_of other k = None" and dist: "distinct (map fst other)"
    by (auto simp: map_of_eq_None_iff)
  have "map_of (dict_update d (kv # other)) = map_of (dict_setitem d k v) ++ map_of other"
    using Cons.IH [OF dist] kv by simp
  also have "\<dots> = map_of d ++ map_of (kv # other)"
    using fresh kv
    by (auto simp: fun_eq_iff map_add_def lookup_dict_setitem split: option.splits)
  finally show ?case .
qed

lemma dict_keys_setitem:
  "dict_keys (dict_setitem d k v) =
     (if dict_contains k d then dict_keys d else dict_keys d @ [k])"
  by (induction d) (auto simp: dict_keys_def dict_contains_def)

lemma dict_contains_keys: "dict_contains k d = (k \<in> set (dict_keys d))"
  by (simp add: dict_contains_def dict_keys_def map_of_eq_None_iff)

lemma distinct_dict_setitem:
  "distinct (dict_keys d) \<Longrightarrow> distinct (dict_keys (dict_setitem d k v))"
  by (simp add: dict_keys_setitem dict_contains_keys)

lemma list_all_dict_setitem:
  "list_all (\<lambda>(k, v). Q v) d \<Longrightarrow> Q v \<Longrightarrow> list_all (\<lambda>(k, v). Q v) (dict_setitem d k v)"
  by (induction d) auto

lemma list_all_lookup:
  "list_all (\<lambda>(k, v). Q v) d \<Longrightarrow> map_of d k = Some v \<Longrightarrow> Q v"
  by (auto simp: list_all_iff dest: map_of_SomeD)

section \<open>Profiles: write, then read\<close>

text \<open>
  C1. Saving a profile \<open>p\<close> under \<open>uid\<close> with \<^verbatim>\<open>POST /profile/{user_id}\<close> and then
  reading \<open>uid\<close> with \<^verbatim>\<open>GET /profile/{user_id}\<close> returns \<open>p\<close>, whatever the store held
  before.
\<close>

theorem put_then_get_profile:
  "get_profile uid (snd (update_profile uid p st)) = p \<and>
   fst (handle (GetProfile uid) (snd (handle (PostProfile uid p) st))) = Inr (Profile p)"
  by (simp add: get_profile_def update_profile_def lookup_dict_setitem)

section \<open>Reads of missing keys\<close>

text \<open>
  C2. For a \<open>uid\<close> that is no key of \<^verbatim>\<open>user_profiles\<close>, \<^verbatim>\<open>get_profile\<close> returns the default
  profile (no name, no preferred transport, no hotel budget, empty lists, both flags false,
  budget style "mixed", walking tolerance "medium", zero trips) carrying the requested id; for
  a \<open>sid\<close> that is no key of \<^verbatim>\<open>sessions\<close>, \<^verbatim>\<open>get_session\<close> returns the default session
  (null user, empty trip slots, clarifier count 0, stage "clarifying"). Both routes always
  answer with a body, never with an error, and hand the store back as it was.
\<close>

theorem get_default_on_miss:
  "(\<not> dict_contains uid (user_profiles st) \<longrightarrow>
      get_profile uid st =
        \<lparr>UserProfile.user_id = uid, name = None, budget_style = Some ''mixed'',
         preferred_transport = None, no_early_flights = False, no_late_nights = False,
         walking_tolerance = Some ''medium'', food_preferences = [],
         transport_dislikes = [], accommodation_dislikes = [],
         typical_hotel_budget = None, total_trips_booked = 0\<rparr>) \<and>
   (\<not> dict_contains sid (sessions st) \<longrightarrow>
      get_session sid st =
        [(''session_id'', JStr sid), (''user_id'', JNull), (''trip_slots'', JObj []),
         (''clarifier_count'', JInt 0), (''conversation_stage'', JStr ''clarifying'')]) \<and>
   handle (GetProfile uid) st = (Inr (Profile (get_profile uid st)), st) \<and>
   handle (GetSession sid) st = (Inr (Json (JObj (get_session sid st))), st)"
  by (simp add: dict_contains_def get_profile_def get_session_def default_profile_def
      default_session_def)

theorem get_default_on_miss_witness:
  "\<not> dict_contains ''nobody'' (user_profiles initial_store) \<and>
   get_profile ''nobody'' initial_store =
     \<lparr>UserProfile.user_id = ''nobody'', name = None, budget_style = Some ''mixed'',
      preferred_transport = None, no_early_flights = False, no_late_nights = False,
      walking_tolerance = Some ''medium'', food_preferences = [],
      transport_dislikes = [], accommodation_dislikes = [],
      typical_hotel_budget = None, total_trips_booked = 0\<rparr> \<and>
   \<not> dict_contains ''s1'' (sessions initial_store) \<and>
   get_session ''s1'' initial_store =
     [(''session_id'', JStr ''s1''), (''user_id'', JNull), (''trip_slots'', JObj []),
      (''clarifier_count'', JInt 0), (''conversation_stage'', JStr ''clarifying'')] \<and>
   snd (handle (GetProfile ''nobody'') initial_store) = initial_store \<and>
   snd (handle (GetSession ''s1'') initial_store) = initial_store"
proof -
  have a: "\<not> dict_contains ''nobody'' (user_profiles initial_store)"
    by (simp add: dict_contains_def initial_store_def init_sample_data_def empty_store_def)
  have b: "\<not> dict_contains ''s1'' (sessions initial_store)"
    by (simp add: dict_contains_def initial_store_def init_sample_data_def empty_store_def)
  show ?thesis
    using a b get_default_on_miss [of "''nobody''" initial_store "''s1''"] by simp
qed

section \<open>Reset\<close>

text \<open>
  C5. After \<^verbatim>\<open>POST /debug/reset\<close> the session dictionary is empty, the profile dictionary
  has the single key "user_demo_123", and reading that key returns the seed values.
\<close>

theorem reset_restores_seed:
  "sessions (snd (reset_data st)) = [] \<and>
   dict_keys (user_profiles (snd (reset_data st))) = [''user_demo_123''] \<and>
   get_profile ''user_demo_123'' (snd (reset_data st)) =
     \<lparr>UserProfile.user_id = ''user_demo_123'', name = Some ''Rahul Kumar'',
      budget_style = Some ''always_budget'', preferred_transport = Some ''train'',
      no_early_flights = True, no_late_nights = False,
      walking_tolerance = Some ''medium'', food_preferences = [''vegetarian''],
      transport_dislikes = [''overnight_bus''],
      accommodation_dislikes = [''shared_bathroom''],
      typical_hotel_budget = Some 1200, total_trips_booked = 5\<rparr> \<and>
   fst (handle PostReset st) =
     Inr (Json (JObj [(''status'', JStr ''success''),
                      (''message'', JStr ''All data reset, sample user restored'')]))"
  by (simp add: reset_data_def init_sample_data_def get_profile_def sample_profile_def
      dict_keys_def)

section \<open>The path id is the storage key\<close>

text \<open>
  C9. When a profile whose own \<^verbatim>\<open>user_id\<close> field is \<open>B\<close> is posted to the path id \<open>A\<close>
  with \<open>A \<noteq> B\<close>, it is stored under \<open>A\<close> and read back from \<open>A\<close> unchanged, field
  \<^verbatim>\<open>user_id\<close> included; the entry under \<open>B\<close> is what it was before (in particular none is
  created), and the only key that can be new is \<open>A\<close>.
\<close>

theorem put_profile_uses_path_id:
  assumes "A \<noteq> B" and "UserProfile.user_id p = B"
  shows "get_profile A (snd (update_profile A p st)) = p \<and>
         UserProfile.user_id (get_profile A (snd (update_profile A p st))) = B \<and>
         map_of (user_profiles (snd (update_profile A p st))) B = map_of (user_profiles st) B \<and>
         dict_contains B (user_profiles (snd (update_profile A p st))) =
           dict_contains B (user_profiles st) \<and>
         dict_keys (user_profiles (snd (update_profile A p st))) =
           (if dict_contains A (user_profiles st) then dict_keys (user_profiles st)
            else dict_keys (user_profiles st) @ [A])"
  using assms
  by (simp add: get_profile_def update_profile_def lookup_dict_setitem dict_contains_def
      dict_keys_setitem)

theorem put_profile_uses_path_id_witness:
  "''alice'' \<noteq> ''bob'' \<and>
   UserProfile.user_id (default_profile ''bob'') = ''bob'' \<and>
   get_profile ''alice'' (snd (update_profile ''alice'' (default_profile ''bob'') initial_store))
     = default_profile ''bob'' \<and>
   \<not> dict_contains ''bob''
       (user_profiles (snd (update_profile ''alice'' (default_profile ''bob'') initial_store))) \<and>
   dict_keys (user_profiles (snd (update_profile ''alice'' (default_profile ''bob'') initial_store)))
     = [''user_demo_123'', ''alice'']"
proof -
  have a: "''alice'' \<noteq> ''bob''" by simp
  have b: "UserProfile.user_id (default_profile ''bob'') = ''bob''"
    by (simp add: default_profile_def)
  have c: "\<not> dict_contains ''bob'' (user_profiles initial_store)"
    "\<not> dict_contains ''alice'' (user_profiles initial_store)"
    "dict_keys (user_profiles initial_store) = [''user_demo_123'']"
    by (simp_all add: dict_contains_def dict_keys_def initial_store_def init_sample_data_def
        empty_store_def)
  show ?thesis
    using a b c put_profile_uses_path_id [OF a b, of initial_store] by simp
qed

section \<open>The assumption formatter\<close>

lemma append_if1: "(if c then a @ [x] else a) = a @ (if c then [x] else [])"
  by simp

lemma append_if2: "(if c then a @ xs else a @ ys) = a @ (if c then xs else ys)"
  by simp

lemma map_if_list: "map f (if c then xs else ys) = (if c then map f xs else map f ys)"
  by simp

lemma collect_assumptions_blocks:
  "collect_assumptions p =
     (if no_early_flights p
      then [\<lparr>text = ''I'll avoid early morning departures'', source = ''profile_preference''\<rparr>]
      else []) @
     (if no_late_nights p
      then [\<lparr>text = ''I'll avoid late night travel'', source = ''profile_preference''\<rparr>]
      else []) @
     (if truthy_opt_str (preferred_transport p)
      then [\<lparr>text = ''Prioritizing '' @ str_opt_str (preferred_transport p) @ '' when possible'',
             source = ''profile_preference''\<rparr>]
      else []) @
     (if budget_style p = Some ''always_budget''
      then [\<lparr>text = ''Budget hotels ('' @ rupee @ ''800-1500/night)'',
             source = ''profile_preference''\<rparr>]
      else if budget_style p = Some ''mid_range''
      then [\<lparr>text = ''Mid-range hotels ('' @ rupee @ ''2000-4000/night)'',
             source = ''profile_preference''\<rparr>]
      else if budget_style p = Some ''luxury''
      then [\<lparr>text = ''Premium hotels ('' @ rupee @ ''5000+/night)'',
             source = ''profile_preference''\<rparr>]
      else []) @
     (if walking_tolerance p = Some ''low''
      then [\<lparr>text = ''Minimizing walking (max 2km/day)'', source = ''profile_preference''\<rparr>]
      else if walking_tolerance p = Some ''high''
      then [\<lparr>text = ''Comfortable with long walks (5-8km/day)'',
             source = ''profile_preference''\<rparr>]
      else []) @
     (if food_preferences p \<noteq> []
      then [\<lparr>text = ''Food preferences: '' @ str_join '', '' (food_preferences p),
             source = ''profile_preference''\<rparr>]
      else []) @
     (if transport_dislikes p \<noteq> []
      then [\<lparr>text = ''Avoiding: '' @ str_join '', '' (transport_dislikes p),
             source = ''profile_preference''\<rparr>]
      else [])"
  unfolding collect_assumptions_def Let_def
  apply (simp only: append_if1 append_if2)
  apply (simp only: append_Nil append_assoc)
  done

lemma assumptions_get_assumptions:
  "assumptions (get_assumptions uid st) = collect_assumptions (get_profile uid st)"
  by (simp add: get_assumptions_def Let_def)

lemma transport_block:
  "(if truthy_opt_str x then [f (str_opt_str x)] else []) =
     (case x of None \<Rightarrow> [] | Some s \<Rightarrow> if s = [] then [] else [f s])"
  by (cases x) (simp_all add: truthy_opt_str_def str_opt_str_def)

lemma collect_assumptions_texts:
  "map text (collect_assumptions p) =
     (if no_early_flights p then [''I'll avoid early morning departures''] else []) @
     (if no_late_nights p then [''I'll avoid late night travel''] else []) @
     (case preferred_transport p of
        None \<Rightarrow> []
      | Some s \<Rightarrow> if s = [] then [] else [''Prioritizing '' @ s @ '' when possible'']) @
     (if budget_style p = Some ''always_budget''
      then [''Budget hotels ('' @ rupee @ ''800-1500/night)'']
      else if budget_style p = Some ''mid_range''
      then [''Mid-range hotels ('' @ rupee @ ''2000-4000/night)'']
      else if budget_style p = Some ''luxury''
      then [''Premium hotels ('' @ rupee @ ''5000+/night)'']
      else []) @
     (if walking_tolerance p = Some ''low'' then [''Minimizing walking (max 2km/day)'']
      else if walking_tolerance p = Some ''high''
      then [''Comfortable with long walks (5-8km/day)'']
      else []) @
     (if food_preferences p \<noteq> []
      then [''Food preferences: '' @ str_join '', '' (food_preferences p)]
      else []) @
     (if transport_dislikes p \<noteq> []
      then [''Avoiding: '' @ str_join '', '' (transport_dislikes p)]
      else [])"
proof -
  have t: "(if truthy_opt_str (preferred_transport p)
            then [''Prioritizing '' @ str_opt_str (preferred_transport p) @ '' when possible'']
            else []) =
           (case preferred_transport p of
              None \<Rightarrow> []
            | Some s \<Rightarrow> if s = [] then [] else [''Prioritizing '' @ s @ '' when possible''])"
    by (rule transport_block [where f = "\<lambda>s. ''Prioritizing '' @ s @ '' when possible''"])
  show ?thesis
    unfolding collect_assumptions_blocks
    apply (simp only: map_append map_if_list list.map Assumption.select_convs)
    apply (simp only: t)
    done
qed

lemma collect_assumptions_sources:
  "map source (collect_assumptions p) =
     replicate (length (collect_assumptions p)) ''profile_preference''"
proof -
  have one: "\<And>c t. map source (if c then [\<lparr>text = t, source = ''profile_preference''\<rparr>] else []) =
      replicate (length (if c then [\<lparr>text = t, source = ''profile_preference''\<rparr>] else []))
        ''profile_preference''"
    by simp
  have two: "\<And>c d t u. map source (if c then [\<lparr>text = t, source = ''profile_preference''\<rparr>]
        else if d then [\<lparr>text = u, source = ''profile_preference''\<rparr>] else []) =
      replicate (length (if c then [\<lparr>text = t, source = ''profile_preference''\<rparr>]
        else if d then [\<lparr>text = u, source = ''profile_preference''\<rparr>] else []))
        ''profile_preference''"
    by simp
  have three: "\<And>c d e t u v. map source (if c then [\<lparr>text = t, source = ''profile_preference''\<rparr>]
        else if d then [\<lparr>text = u, source = ''profile_preference''\<rparr>]
        else if e then [\<lparr>text = v, source = ''profile_preference''\<rparr>] else []) =
      replicate (length (if c then [\<lparr>text = t, source = ''profile_preference''\<rparr>]
        else if d then [\<lparr>text = u, source = ''profile_preference''\<rparr>]
        else if e then [\<lparr>text = v, source = ''profile_preference''\<rparr>] else []))
        ''profile_preference''"
    by simp
  show ?thesis
    unfolding collect_assumptions_blocks
    by (simp only: map_append length_append replicate_add one two three)
qed

lemma collect_assumptions_unset:
  assumes "\<not> no_early_flights p" "\<not> no_late_nights p" "preferred_transport p = None"
    "budget_style p = None" "walking_tolerance p = None" "food_preferences p = []"
    "transport_dislikes p = []"
  shows "collect_assumptions p = []"
  unfolding collect_assumptions_blocks using assms
  by (simp add: truthy_opt_str_def)

text \<open>
  C6. The list built by \<^verbatim>\<open>get_assumptions\<close> is the one of the profile it reads, and for
  every profile its texts are the concatenation of seven blocks in this order, each empty or a
  single sentence: no early flights, no late nights, preferred transport (set and not empty),
  budget style (one of three sentences; nothing for "mixed", an unknown value or none),
  walking tolerance (a sentence for "low" and for "high", nothing otherwise), food preferences
  (not empty), transport dislikes (not empty). Every entry has the source
  "profile_preference". A profile is a record, so the order in which a request lists its
  fields is not part of the input.
\<close>

theorem assumptions_fixed_order:
  "assumptions (get_assumptions uid st) = collect_assumptions (get_profile uid st) \<and>
   map text (collect_assumptions p) =
     (if no_early_flights p then [''I'll avoid early morning departures''] else []) @
     (if no_late_nights p then [''I'll avoid late night travel''] else []) @
     (case preferred_transport p of
        None \<Rightarrow> []
      | Some s \<Rightarrow> if s = [] then [] else [''Prioritizing '' @ s @ '' when possible'']) @
     (if budget_style p = Some ''always_budget''
      then [''Budget hotels ('' @ rupee @ ''800-1500/night)'']
      else if budget_style p = Some ''mid_range''
      then [''Mid-range hotels ('' @ rupee @ ''2000-4000/night)'']
      else if budget_style p = Some ''luxury''
      then [''Premium hotels ('' @ rupee @ ''5000+/night)'']
      else []) @
     (if walking_tolerance p = Some ''low'' then [''Minimizing walking (max 2km/day)'']
      else if walking_tolerance p = Some ''high''
      then [''Comfortable with long walks (5-8km/day)'']
      else []) @
     (if food_preferences p \<noteq> []
      then [''Food preferences: '' @ str_join '', '' (food_preferences p)]
      else []) @
     (if transport_dislikes p \<noteq> []
      then [''Avoiding: '' @ str_join '', '' (transport_dislikes p)]
      else []) \<and>
   map source (collect_assumptions p) =
     replicate (length (collect_assumptions p)) ''profile_preference''"
  using assumptions_get_assumptions [of uid st] collect_assumptions_texts [of p]
    collect_assumptions_sources [of p]
  by (intro conjI)

theorem assumptions_fixed_order_witness:
  "map text (assumptions (get_assumptions ''user_demo_123'' initial_store)) =
     [''I'll avoid early morning departures'',
      ''Prioritizing train when possible'',
      ''Budget hotels ('' @ rupee @ ''800-1500/night)'',
      ''Food preferences: vegetarian'',
      ''Avoiding: overnight_bus''] \<and>
   map source (assumptions (get_assumptions ''user_demo_123'' initial_store)) =
     replicate 5 ''profile_preference''"
proof -
  have p: "get_profile ''user_demo_123'' initial_store = sample_profile"
    by (simp add: get_profile_def initial_store_def init_sample_data_def empty_store_def)
  have f: "no_early_flights sample_profile" "\<not> no_late_nights sample_profile"
    "preferred_transport sample_profile = Some ''train''"
    "budget_style sample_profile = Some ''always_budget''"
    "walking_tolerance sample_profile = Some ''medium''"
    "food_preferences sample_profile = [''vegetarian'']"
    "transport_dislikes sample_profile = [''overnight_bus'']"
    by (simp_all add: sample_profile_def)
  have t: "map text (collect_assumptions sample_profile) =
     [''I'll avoid early morning departures'',
      ''Prioritizing train when possible'',
      ''Budget hotels ('' @ rupee @ ''800-1500/night)'',
      ''Food preferences: vegetarian'',
      ''Avoiding: overnight_bus'']"
    using assumptions_fixed_order [of "''user_demo_123''" initial_store sample_profile]
    by (simp add: f)
  have l: "length (collect_assumptions sample_profile) = 5"
    using arg_cong [OF t, of length] by simp
  show ?thesis
    using assumptions_fixed_order [of "''user_demo_123''" initial_store sample_profile] t l
    by (simp add: p)
qed

lemma str_join_char:
  "xs \<noteq> [] \<Longrightarrow> str_join [c] xs = tl (concat (map (\<lambda>x. c # x) xs))"
proof (induction xs)
  case Nil
  then show ?case by simp
next
  case (Cons x xs)
  show ?case
  proof (cases xs)
    case Nil
    then show ?thesis by simp
  next
    case (Cons y ys)
    with Cons.IH have "str_join [c] (y # ys) = tl (concat (map (\<lambda>x. c # x) (y # ys)))"
      by simp
    then show ?thesis using Cons by simp
  qed
qed

lemma formatted_lines:
  "found \<noteq> [] \<Longrightarrow>
     str_join newline (map (\<lambda>a. bullet @ '' '' @ text a) found) =
     tl (concat (map (\<lambda>a. [CHR 0x0A, CHR 0xE2, CHR 0x80, CHR 0xA2, CHR '' ''] @ text a) found))"
  unfolding newline_def bullet_def
  by (simp add: str_join_char comp_def)

text \<open>
  C7. In the result of \<^verbatim>\<open>get_assumptions\<close> the list is the one collected from the profile
  read, \<^verbatim>\<open>count\<close> is its length, \<^verbatim>\<open>has_assumptions\<close> holds exactly when that length is not
  zero, and \<^verbatim>\<open>formatted_text\<close> is the fixed fallback sentence for the empty list and
  otherwise the lines in the order of the list, each line the bullet (bytes E2 80 A2), a
  space and the text, with one newline (byte 0A) between consecutive lines: the
  concatenation of newline, bullet, space and text over the list, without its first
  newline. A profile with every optional field unset, both flags false and all lists empty
  gives the empty case. For the seed user the result has count 5 and the five lines written
  out below.
\<close>

theorem assumptions_summary:
  "let r = get_assumptions uid st; p = get_profile uid st in
     assumptions r = collect_assumptions p \<and>
     count r = int (length (assumptions r)) \<and>
     has_assumptions r = (length (assumptions r) \<noteq> 0) \<and>
     formatted_text r =
       (if assumptions r = [] then ''No previous preferences found. Let's start fresh!''
        else tl (concat (map (\<lambda>a. [CHR 0x0A, CHR 0xE2, CHR 0x80, CHR 0xA2, CHR '' ''] @ text a)
                              (assumptions r)))) \<and>
     (name p = None \<and> budget_style p = None \<and> preferred_transport p = None \<and>
      \<not> no_early_flights p \<and> \<not> no_late_nights p \<and> walking_tolerance p = None \<and>
      food_preferences p = [] \<and> transport_dislikes p = [] \<and>
      accommodation_dislikes p = [] \<and> typical_hotel_budget p = None \<longrightarrow>
      has_assumptions r = False \<and> count r = 0 \<and>
      formatted_text r = ''No previous preferences found. Let's start fresh!'')"
proof -
  have a: "count (get_assumptions uid st) = int (length (assumptions (get_assumptions uid st)))"
    by (simp add: get_assumptions_def Let_def)
  have b: "has_assumptions (get_assumptions uid st) =
      (length (assumptions (get_assumptions uid st)) \<noteq> 0)"
    by (simp add: get_assumptions_def Let_def)
  have c: "formatted_text (get_assumptions uid st) =
       (if assumptions (get_assumptions uid st) = []
        then ''No previous preferences found. Let's start fresh!''
        else tl (concat (map (\<lambda>a. [CHR 0x0A, CHR 0xE2, CHR 0x80, CHR 0xA2, CHR '' ''] @ text a)
                              (assumptions (get_assumptions uid st)))))"
  proof (cases "collect_assumptions (get_profile uid st) = []")
    case True
    then show ?thesis by (simp add: get_assumptions_def Let_def)
  next
    case False
    then have "formatted_text (get_assumptions uid st) =
        str_join newline (map (\<lambda>a. bullet @ '' '' @ text a)
          (collect_assumptions (get_profile uid st)))"
      by (simp add: get_assumptions_def Let_def)
    also have "\<dots> = tl (concat (map (\<lambda>a. [CHR 0x0A, CHR 0xE2, CHR 0x80, CHR 0xA2, CHR '' ''] @ text a)
          (collect_assumptions (get_profile uid st))))"
      using False by (rule formatted_lines)
    finally show ?thesis using False by (simp only: assumptions_get_assumptions if_False)
  qed
  have d: "assumptions (get_assumptions uid st) = []"
    if "\<not> no_early_flights (get_profile uid st)" "\<not> no_late_nights (get_profile uid st)"
      "preferred_transport (get_profile uid st) = None"
      "budget_style (get_profile uid st) = None"
      "walking_tolerance (get_profile uid st) = None"
      "food_preferences (get_profile uid st) = []"
      "transport_dislikes (get_profile uid st) = []"
    using collect_assumptions_unset [OF that] by (simp add: assumptions_get_assumptions)
  show ?thesis
    unfolding Let_def
    apply (intro conjI impI)
          apply (rule assumptions_get_assumptions)
         apply (rule a)
        apply (rule b)
       apply (rule c)
      apply (simp add: b d)
     apply (simp add: a d)
    apply (simp add: c d)
    done
qed

theorem assumptions_summary_witness:
  "length (assumptions (get_assumptions ''user_demo_123'' initial_store)) = 5 \<and>
   count (get_assumptions ''user_demo_123'' initial_store) = 5 \<and>
   has_assumptions (get_assumptions ''user_demo_123'' initial_store) = True \<and>
   formatted_text (get_assumptions ''user_demo_123'' initial_store) =
     [CHR 0xE2, CHR 0x80, CHR 0xA2] @ '' I'll avoid early morning departures'' @ [CHR 0x0A] @
     [CHR 0xE2, CHR 0x80, CHR 0xA2] @ '' Prioritizing train when possible'' @ [CHR 0x0A] @
     [CHR 0xE2, CHR 0x80, CHR 0xA2] @ '' Budget hotels ('' @ [CHR 0xE2, CHR 0x82, CHR 0xB9] @
       ''800-1500/night)'' @ [CHR 0x0A] @
     [CHR 0xE2, CHR 0x80, CHR 0xA2] @ '' Food preferences: vegetarian'' @ [CHR 0x0A] @
     [CHR 0xE2, CHR 0x80, CHR 0xA2] @ '' Avoiding: overnight_bus'' \<and>
   (let st = snd (update_profile ''u1''
                \<lparr>UserProfile.user_id = ''u1'', name = None, budget_style = None,
                 preferred_transport = None, no_early_flights = False,
                 no_late_nights = False, walking_tolerance = None, food_preferences = [],
                 transport_dislikes = [], accommodation_dislikes = [],
                 typical_hotel_budget = None, total_trips_booked = 0\<rparr> initial_store);
        r = get_assumptions ''u1'' st; p = get_profile ''u1'' st
    in name p = None \<and> budget_style p = None \<and> preferred_transport p = None \<and>
       \<not> no_early_flights p \<and> \<not> no_late_nights p \<and> walking_tolerance p = None \<and>
       food_preferences p = [] \<and> transport_dislikes p = [] \<and>
       accommodation_dislikes p = [] \<and> typical_hotel_budget p = None \<and>
       has_assumptions r = False \<and> count r = 0 \<and> assumptions r = [] \<and>
       formatted_text r = ''No previous preferences found. Let's start fresh!'')"
proof -
  have sp: "get_profile ''user_demo_123'' initial_store = sample_profile"
    by (simp add: get_profile_def initial_store_def init_sample_data_def empty_store_def)
  have f: "no_early_flights sample_profile" "\<not> no_late_nights sample_profile"
    "preferred_transport sample_profile = Some ''train''"
    "budget_style sample_profile = Some ''always_budget''"
    "walking_tolerance sample_profile = Some ''medium''"
    "food_preferences sample_profile = [''vegetarian'']"
    "transport_dislikes sample_profile = [''overnight_bus'']"
    by (simp_all add: sample_profile_def)
  have found: "collect_assumptions sample_profile =
     [\<lparr>text = ''I'll avoid early morning departures'', source = ''profile_preference''\<rparr>,
      \<lparr>text = ''Prioritizing train when possible'', source = ''profile_preference''\<rparr>,
      \<lparr>text = ''Budget hotels ('' @ [CHR 0xE2, CHR 0x82, CHR 0xB9] @ ''800-1500/night)'',
        source = ''profile_preference''\<rparr>,
      \<lparr>text = ''Food preferences: vegetarian'', source = ''profile_preference''\<rparr>,
      \<lparr>text = ''Avoiding: overnight_bus'', source = ''profile_preference''\<rparr>]"
    unfolding collect_assumptions_blocks
    by (simp add: f truthy_opt_str_def str_opt_str_def rupee_def)
  note s = assumptions_summary [of "''user_demo_123''" initial_store, unfolded Let_def sp]
  have lst: "assumptions (get_assumptions ''user_demo_123'' initial_store) =
      collect_assumptions sample_profile"
    using conjunct1 [OF s] .
  have n: "length (assumptions (get_assumptions ''user_demo_123'' initial_store)) = 5"
    unfolding lst found by simp
  have cnt: "count (get_assumptions ''user_demo_123'' initial_store) = 5"
    using conjunct1 [OF conjunct2 [OF s]] n by simp
  have flag: "has_assumptions (get_assumptions ''user_demo_123'' initial_store) = True"
    using conjunct1 [OF conjunct2 [OF conjunct2 [OF s]]] n by simp
  have ftext: "formatted_text (get_assumptions ''user_demo_123'' initial_store) =
     [CHR 0xE2, CHR 0x80, CHR 0xA2] @ '' I'll avoid early morning departures'' @ [CHR 0x0A] @
     [CHR 0xE2, CHR 0x80, CHR 0xA2] @ '' Prioritizing train when possible'' @ [CHR 0x0A] @
     [CHR 0xE2, CHR 0x80, CHR 0xA2] @ '' Budget hotels ('' @ [CHR 0xE2, CHR 0x82, CHR 0xB9] @
       ''800-1500/night)'' @ [CHR 0x0A] @
     [CHR 0xE2, CHR 0x80, CHR 0xA2] @ '' Food preferences: vegetarian'' @ [CHR 0x0A] @
     [CHR 0xE2, CHR 0x80, CHR 0xA2] @ '' Avoiding: overnight_bus''"
    using conjunct1 [OF conjunct2 [OF conjunct2 [OF conjunct2 [OF s]]]]
    unfolding lst found by simp
  define st where "st = snd (update_profile ''u1''
                \<lparr>UserProfile.user_id = ''u1'', name = None, budget_style = None,
                 preferred_transport = None, no_early_flights = False,
                 no_late_nights = False, walking_tolerance = None, food_preferences = [],
                 transport_dislikes = [], accommodation_dislikes = [],
                 typical_hotel_budget = None, total_trips_booked = 0\<rparr> initial_store)"
  have p: "get_profile ''u1'' st =
                \<lparr>UserProfile.user_id = ''u1'', name = None, budget_style = None,
                 preferred_transport = None, no_early_flights = False,
                 no_late_nights = False, walking_tolerance = None, food_preferences = [],
                 transport_dislikes = [], accommodation_dislikes = [],
                 typical_hotel_budget = None, total_trips_booked = 0\<rparr>"
    unfolding st_def
    by (simp add: get_profile_def update_profile_def initial_store_def init_sample_data_def
        empty_store_def)
  note t = assumptions_summary [of "''u1''" st, unfolded Let_def]
  have h: "name (get_profile ''u1'' st) = None \<and> budget_style (get_profile ''u1'' st) = None \<and>
      preferred_transport (get_profile ''u1'' st) = None \<and>
      \<not> no_early_flights (get_profile ''u1'' st) \<and> \<not> no_late_nights (get_profile ''u1'' st) \<and>
      walking_tolerance (get_profile ''u1'' st) = None \<and>
      food_preferences (get_profile ''u1'' st) = [] \<and>
      transport_dislikes (get_profile ''u1'' st) = [] \<and>
      accommodation_dislikes (get_profile ''u1'' st) = [] \<and>
      typical_hotel_budget (get_profile ''u1'' st) = None"
    by (simp add: p)
  note d = mp [OF conjunct2 [OF conjunct2 [OF conjunct2 [OF conjunct2 [OF t]]]] h]
  have e: "assumptions (get_assumptions ''u1'' st) = []"
    using conjunct1 [OF conjunct2 [OF conjunct2 [OF t]]] conjunct1 [OF d] by simp
  have empty_case: "name (get_profile ''u1'' st) = None \<and> budget_style (get_profile ''u1'' st) = None \<and>
      preferred_transport (get_profile ''u1'' st) = None \<and>
      \<not> no_early_flights (get_profile ''u1'' st) \<and> \<not> no_late_nights (get_profile ''u1'' st) \<and>
      walking_tolerance (get_profile ''u1'' st) = None \<and>
      food_preferences (get_profile ''u1'' st) = [] \<and>
      transport_dislikes (get_profile ''u1'' st) = [] \<and>
      accommodation_dislikes (get_profile ''u1'' st) = [] \<and>
      typical_hotel_budget (get_profile ''u1'' st) = None \<and>
      has_assumptions (get_assumptions ''u1'' st) = False \<and>
      count (get_assumptions ''u1'' st) = 0 \<and>
      assumptions (get_assumptions ''u1'' st) = [] \<and>
      formatted_text (get_assumptions ''u1'' st) =
        ''No previous preferences found. Let's start fresh!''"
    using h d e by simp
  show ?thesis
    unfolding Let_def st_def [symmetric]
    using n cnt flag ftext empty_case by (intro conjI) simp_all
qed

section \<open>Sessions and trip slots\<close>

lemma has_slots_dict_SessionState_dict: "has_slots_dict (SessionState_dict s)"
  by (simp add: has_slots_dict_def SessionState_dict_def)

lemma has_slots_dict_setitem: "has_slots_dict (dict_setitem session ''trip_slots'' (JObj ts))"
  by (simp add: has_slots_dict_def lookup_dict_setitem)

lemma has_slots_dictE:
  assumes "has_slots_dict session"
  obtains ts where "map_of session ''trip_slots'' = Some (JObj ts)"
  using assms by (auto simp: has_slots_dict_def split: option.splits json.splits)

lemma sessions_ok_lookup:
  "sessions_ok st \<Longrightarrow> map_of (sessions st) sid = Some session \<Longrightarrow> has_slots_dict session"
  unfolding sessions_ok_def by (rule list_all_lookup)

lemma sessions_ok_update_session: "sessions_ok st \<Longrightarrow> sessions_ok (snd (update_session s st))"
  unfolding sessions_ok_def update_session_def
  by (simp add: list_all_dict_setitem has_slots_dict_SessionState_dict)

lemma update_trip_slots_missing:
  "map_of (sessions st) sid = None \<Longrightarrow>
     update_trip_slots sid slots st = (Inl (HTTPException 404 ''Session not found''), st)"
  by (simp add: update_trip_slots_def)

lemma update_trip_slots_stored:
  assumes "map_of (sessions st) sid = Some session"
    and "map_of session ''trip_slots'' = Some (JObj ts)"
  shows "update_trip_slots sid slots st =
     (Inr (JObj [(''status'', JStr ''success''), (''session_id'', JStr sid),
                 (''updated_slots'', JObj slots)]),
      st\<lparr>sessions := dict_setitem (sessions st) sid
              (dict_setitem session ''trip_slots'' (JObj (dict_update ts slots)))\<rparr>)"
  using assms by (simp add: update_trip_slots_def)

lemma sessions_ok_update_trip_slots:
  assumes "sessions_ok st"
  shows "sessions_ok (snd (update_trip_slots sid slots st))"
proof (cases "map_of (sessions st) sid")
  case None
  then show ?thesis using assms by (simp add: update_trip_slots_missing)
next
  case (Some session)
  with assms have "has_slots_dict session" by (rule sessions_ok_lookup)
  then obtain ts where ts: "map_of session ''trip_slots'' = Some (JObj ts)"
    by (rule has_slots_dictE)
  show ?thesis
    using assms unfolding update_trip_slots_stored [OF Some ts] sessions_ok_def
    by (simp add: list_all_dict_setitem has_slots_dict_setitem)
qed

lemma snd_handle:
  "snd (handle (PostProfile uid p) st) = snd (update_profile uid p st)"
  "snd (handle (PostSession s) st) = snd (update_session s st)"
  "snd (handle (PostSlots sid slots) st) = snd (update_trip_slots sid slots st)"
  "snd (handle PostReset st) = snd (reset_data st)"
  by (simp_all split: prod.splits sum.splits)

lemma sessions_ok_handle:
  assumes "sessions_ok st"
  shows "sessions_ok (snd (handle r st))"
proof (cases r)
  case (PostProfile uid p)
  then show ?thesis using assms
    by (simp only: snd_handle) (simp add: sessions_ok_def update_profile_def)
next
  case (PostSession s)
  then show ?thesis using assms
    by (simp only: snd_handle sessions_ok_update_session)
next
  case (PostSlots sid slots)
  then show ?thesis using assms
    by (simp only: snd_handle sessions_ok_update_trip_slots)
next
  case PostReset
  then show ?thesis
    by (simp only: snd_handle)
      (simp add: sessions_ok_def reset_data_def init_sample_data_def)
qed (use assms in simp_all)

lemma sessions_ok_run: "sessions_ok st \<Longrightarrow> sessions_ok (run rs st)"
  by (induction rs arbitrary: st) (simp_all add: sessions_ok_handle)

lemma sessions_ok_initial: "sessions_ok initial_store"
  by (simp add: sessions_ok_def initial_store_def init_sample_data_def empty_store_def)

lemma sessions_ok_reachable: "sessions_ok (run rs initial_store)"
  by (rule sessions_ok_run [OF sessions_ok_initial])

lemma update_trip_slots_ok:
  assumes "sessions_ok st"
  shows "case fst (update_trip_slots sid slots st) of
           Inl e \<Rightarrow> e = HTTPException 404 ''Session not found'' \<and>
                    \<not> dict_contains sid (sessions st)
         | Inr r \<Rightarrow> dict_contains sid (sessions st)"
proof (cases "map_of (sessions st) sid")
  case None
  then show ?thesis by (simp add: update_trip_slots_missing dict_contains_def)
next
  case (Some session)
  with assms have "has_slots_dict session" by (rule sessions_ok_lookup)
  then obtain ts where ts: "map_of session ''trip_slots'' = Some (JObj ts)"
    by (rule has_slots_dictE)
  show ?thesis
    unfolding update_trip_slots_stored [OF Some ts] using Some
    by (simp add: dict_contains_def)
qed

lemma demo_store:
  "run [PostSession demo_session] initial_store =
     \<lparr>user_profiles = [(''user_demo_123'', sample_profile)],
      sessions =
        [(''s1'',
          [(''session_id'', JStr ''s1''), (''user_id'', JStr ''user_demo_123''),
           (''trip_slots'',
              JObj [(''destination'', JNull), (''start_date'', JNull), (''end_date'', JNull),
                    (''companions'', JNull), (''budget_level'', JStr ''mid''),
                    (''budget_min'', JNull), (''budget_max'', JNull), (''intent'', JNull),
                    (''constraints'', JList [])]),
           (''clarifier_count'', JInt 0), (''conversation_stage'', JStr ''clarifying'')])]\<rparr>"
  by (simp add: initial_store_def init_sample_data_def empty_store_def update_session_def
      demo_session_def SessionState_dict_def TripSlots_dict_def json_opt_str_def
      json_opt_int_def)

lemma handle_read: "is_store_read r \<Longrightarrow> snd (handle r st) = st"
  by (cases r) simp_all

text \<open>
  C10. In every store the application can reach from its start by serving requests, each
  stored session has a dictionary under \<^verbatim>\<open>"trip_slots"\<close>, so in such a store
  \<^verbatim>\<open>update_trip_slots\<close> either succeeds, on a stored session id, or fails with the 404
  exception "Session not found", on a missing one; the \<^verbatim>\<open>KeyError\<close> and
  \<^verbatim>\<open>AttributeError\<close> of the dictionary update never occur.
\<close>

theorem stored_sessions_have_slots_dict:
  "sessions_ok (run rs initial_store) \<and>
   (case fst (update_trip_slots sid slots (run rs initial_store)) of
      Inl e \<Rightarrow> e = HTTPException 404 ''Session not found'' \<and>
               \<not> dict_contains sid (sessions (run rs initial_store))
    | Inr r \<Rightarrow> dict_contains sid (sessions (run rs initial_store)))"
  using sessions_ok_reachable [of rs] update_trip_slots_ok [OF sessions_ok_reachable [of rs], of sid slots]
  by (intro conjI)

theorem stored_sessions_have_slots_dict_witness:
  "sessions_ok (run [PostSession demo_session, PostSlots ''s1'' demo_slots] initial_store) \<and>
   fst (update_trip_slots ''s1'' demo_slots
          (run [PostSession demo_session, PostSlots ''s1'' demo_slots] initial_store)) =
     Inr (JObj [(''status'', JStr ''success''), (''session_id'', JStr ''s1''),
                (''updated_slots'', JObj demo_slots)]) \<and>
   fst (update_trip_slots ''s2'' demo_slots
          (run [PostSession demo_session, PostSlots ''s1'' demo_slots] initial_store)) =
     Inl (HTTPException 404 ''Session not found'')"
proof -
  have s: "run [PostSession demo_session, PostSlots ''s1'' demo_slots] initial_store =
      snd (update_trip_slots ''s1'' demo_slots (run [PostSession demo_session] initial_store))"
    by (simp split: prod.splits sum.splits)
  have c1: "dict_contains ''s1''
      (sessions (run [PostSession demo_session, PostSlots ''s1'' demo_slots] initial_store))"
    and c2: "\<not> dict_contains ''s2''
      (sessions (run [PostSession demo_session, PostSlots ''s1'' demo_slots] initial_store))"
    unfolding s demo_store
    by (simp_all add: update_trip_slots_def dict_contains_def)
  note t1 = stored_sessions_have_slots_dict
    [of "[PostSession demo_session, PostSlots ''s1'' demo_slots]" "''s1''" demo_slots]
  note t2 = stored_sessions_have_slots_dict
    [of "[PostSession demo_session, PostSlots ''s1'' demo_slots]" "''s2''" demo_slots]
  have r1: "fst (update_trip_slots ''s1'' demo_slots
          (run [PostSession demo_session, PostSlots ''s1'' demo_slots] initial_store)) =
     Inr (JObj [(''status'', JStr ''success''), (''session_id'', JStr ''s1''),
                (''updated_slots'', JObj demo_slots)])"
    using conjunct2 [OF t1] c1
    by (auto simp: update_trip_slots_def Let_def split: sum.splits option.splits json.splits)
  have r2: "fst (update_trip_slots ''s2'' demo_slots
          (run [PostSession demo_session, PostSlots ''s1'' demo_slots] initial_store)) =
     Inl (HTTPException 404 ''Session not found'')"
    using conjunct2 [OF t2] c2 by (auto split: sum.splits)
  from conjunct1 [OF t1] r1 r2 show ?thesis by (intro conjI)
qed

text \<open>
  C3. For a session stored in a reachable store and a slot dictionary \<open>slots\<close> (pairwise
  distinct keys), \<^verbatim>\<open>POST /session/{session_id}/slots\<close> succeeds, echoes \<open>slots\<close> as
  \<^verbatim>\<open>updated_slots\<close>, and leaves under \<^verbatim>\<open>"trip_slots"\<close> the old dictionary overridden by
  \<open>slots\<close>: a key of \<open>slots\<close> has the value of \<open>slots\<close>, every other key has the value
  it had. The profiles and the set of session ids are untouched.
\<close>

theorem merge_trip_slots:
  assumes "st = run rs initial_store"
    and "dict_contains sid (sessions st)"
    and "distinct (map fst slots)"
  shows "\<exists>ts ts'.
           stored_trip_slots st sid = Some ts \<and>
           stored_trip_slots (snd (update_trip_slots sid slots st)) sid = Some ts' \<and>
           map_of ts' = map_of ts ++ map_of slots \<and>
           fst (update_trip_slots sid slots st) =
             Inr (JObj [(''status'', JStr ''success''), (''session_id'', JStr sid),
                        (''updated_slots'', JObj slots)]) \<and>
           user_profiles (snd (update_trip_slots sid slots st)) = user_profiles st \<and>
           dict_keys (sessions (snd (update_trip_slots sid slots st))) = dict_keys (sessions st)"
proof -
  from assms(2) obtain session where s: "map_of (sessions st) sid = Some session"
    by (auto simp: dict_contains_def)
  have "sessions_ok st"
    unfolding assms(1) by (rule sessions_ok_reachable)
  then have "has_slots_dict session" using s by (rule sessions_ok_lookup)
  then obtain ts where ts: "map_of session ''trip_slots'' = Some (JObj ts)"
    by (rule has_slots_dictE)
  have before: "stored_trip_slots st sid = Some ts"
    by (simp add: stored_trip_slots_def s ts)
  have after: "stored_trip_slots (snd (update_trip_slots sid slots st)) sid =
      Some (dict_update ts slots)"
    unfolding update_trip_slots_stored [OF s ts]
    by (simp add: stored_trip_slots_def lookup_dict_setitem)
  have merged: "map_of (dict_update ts slots) = map_of ts ++ map_of slots"
    using assms(3) by (rule map_of_dict_update)
  have resp: "fst (update_trip_slots sid slots st) =
             Inr (JObj [(''status'', JStr ''success''), (''session_id'', JStr sid),
                        (''updated_slots'', JObj slots)])"
    unfolding update_trip_slots_stored [OF s ts] by simp
  have frame: "user_profiles (snd (update_trip_slots sid slots st)) = user_profiles st"
    "dict_keys (sessions (snd (update_trip_slots sid slots st))) = dict_keys (sessions st)"
    unfolding update_trip_slots_stored [OF s ts] using assms(2)
    by (simp_all add: dict_keys_setitem)
  from before after merged resp frame show ?thesis by blast
qed

theorem merge_trip_slots_witness:
  "dict_contains ''s1'' (sessions (run [PostSession demo_session] initial_store)) \<and>
   distinct (map fst demo_slots) \<and>
   stored_trip_slots (run [PostSession demo_session] initial_store) ''s1'' =
     Some [(''destination'', JNull), (''start_date'', JNull), (''end_date'', JNull),
           (''companions'', JNull), (''budget_level'', JStr ''mid''),
           (''budget_min'', JNull), (''budget_max'', JNull), (''intent'', JNull),
           (''constraints'', JList [])] \<and>
   stored_trip_slots
       (snd (update_trip_slots ''s1'' demo_slots (run [PostSession demo_session] initial_store)))
       ''s1'' =
     Some [(''destination'', JStr ''Goa''), (''start_date'', JNull), (''end_date'', JNull),
           (''companions'', JNull), (''budget_level'', JStr ''mid''),
           (''budget_min'', JNull), (''budget_max'', JNull), (''intent'', JNull),
           (''constraints'', JList []), (''pace'', JStr ''slow'')] \<and>
   fst (update_trip_slots ''s1'' demo_slots (run [PostSession demo_session] initial_store)) =
     Inr (JObj [(''status'', JStr ''success''), (''session_id'', JStr ''s1''),
                (''updated_slots'', JObj demo_slots)])"
proof -
  have a: "dict_contains ''s1'' (sessions (run [PostSession demo_session] initial_store))"
    unfolding demo_store by (simp add: dict_contains_def)
  have b: "distinct (map fst demo_slots)"
    by (simp add: demo_slots_def)
  have c: "stored_trip_slots (run [PostSession demo_session] initial_store) ''s1'' =
     Some [(''destination'', JNull), (''start_date'', JNull), (''end_date'', JNull),
           (''companions'', JNull), (''budget_level'', JStr ''mid''),
           (''budget_min'', JNull), (''budget_max'', JNull), (''intent'', JNull),
           (''constraints'', JList [])]"
    unfolding demo_store by (simp add: stored_trip_slots_def)
  have d: "stored_trip_slots
       (snd (update_trip_slots ''s1'' demo_slots (run [PostSession demo_session] initial_store)))
       ''s1'' =
     Some [(''destination'', JStr ''Goa''), (''start_date'', JNull), (''end_date'', JNull),
           (''companions'', JNull), (''budget_level'', JStr ''mid''),
           (''budget_min'', JNull), (''budget_max'', JNull), (''intent'', JNull),
           (''constraints'', JList []), (''pace'', JStr ''slow'')]"
    unfolding demo_store
    by (simp add: stored_trip_slots_def update_trip_slots_def demo_slots_def)
  from merge_trip_slots [OF refl a b]
  have e: "fst (update_trip_slots ''s1'' demo_slots (run [PostSession demo_session] initial_store)) =
     Inr (JObj [(''status'', JStr ''success''), (''session_id'', JStr ''s1''),
                (''updated_slots'', JObj demo_slots)])"
    by blast
  from a b c d e show ?thesis by (intro conjI)
qed

text \<open>
  C4. On a session id that is not stored, \<^verbatim>\<open>update_trip_slots\<close> fails with
  \<^verbatim>\<open>HTTPException(status_code=404, detail="Session not found")\<close> whatever the payload, and
  the store is the one before the call. No other route, and no other case of this route,
  raises an \<^verbatim>\<open>HTTPException\<close>.
\<close>

theorem slots_unknown_session:
  "(\<not> dict_contains sid (sessions st) \<longrightarrow>
      update_trip_slots sid slots st = (Inl (HTTPException 404 ''Session not found''), st) \<and>
      handle (PostSlots sid slots) st = (Inl (HTTPException 404 ''Session not found''), st)) \<and>
   (fst (handle r st) = Inl (HTTPException code detail) \<longrightarrow>
      code = 404 \<and> detail = ''Session not found'' \<and>
      (\<exists>sid' slots'. r = PostSlots sid' slots' \<and> \<not> dict_contains sid' (sessions st)))"
proof (intro conjI impI)
  assume "\<not> dict_contains sid (sessions st)"
  then have n: "map_of (sessions st) sid = None" by (simp add: dict_contains_def)
  show "update_trip_slots sid slots st = (Inl (HTTPException 404 ''Session not found''), st)"
    using n by (rule update_trip_slots_missing)
  then show "handle (PostSlots sid slots) st = (Inl (HTTPException 404 ''Session not found''), st)"
    by simp
next
  assume h: "fst (handle r st) = Inl (HTTPException code detail)"
  have "code = 404 \<and> detail = ''Session not found'' \<and>
      (\<exists>sid' slots'. r = PostSlots sid' slots' \<and> \<not> dict_contains sid' (sessions st))"
  proof (cases r)
    case (PostSlots sid' slots')
    have "fst (update_trip_slots sid' slots' st) = Inl (HTTPException code detail)"
      using h PostSlots by (simp split: prod.splits sum.splits)
    then have "code = 404 \<and> detail = ''Session not found'' \<and>
        \<not> dict_contains sid' (sessions st)"
      by (auto simp: update_trip_slots_def dict_contains_def Let_def
          split: option.splits json.splits)
    then show ?thesis using PostSlots by simp
  qed (use h in \<open>simp_all split: prod.splits\<close>)
  then show "code = 404" "detail = ''Session not found''"
    "\<exists>sid' slots'. r = PostSlots sid' slots' \<and> \<not> dict_contains sid' (sessions st)"
    by simp_all
qed

theorem slots_unknown_session_witness:
  "\<not> dict_contains ''s2'' (sessions (run [PostSession demo_session] initial_store)) \<and>
   update_trip_slots ''s2'' demo_slots (run [PostSession demo_session] initial_store) =
     (Inl (HTTPException 404 ''Session not found''),
      run [PostSession demo_session] initial_store) \<and>
   fst (handle (PostSlots ''s2'' demo_slots) (run [PostSession demo_session] initial_store)) =
     Inl (HTTPException 404 ''Session not found'') \<and>
   (\<exists>sid' slots'. PostSlots ''s2'' demo_slots = PostSlots sid' slots' \<and>
      \<not> dict_contains sid' (sessions (run [PostSession demo_session] initial_store)))"
proof -
  have a: "\<not> dict_contains ''s2'' (sessions (run [PostSession demo_session] initial_store))"
    unfolding demo_store by (simp add: dict_contains_def)
  note t = slots_unknown_session [of "''s2''" "run [PostSession demo_session] initial_store"
      demo_slots "PostSlots ''s2'' demo_slots" 404 "''Session not found''"]
  note b = mp [OF conjunct1 [OF t] a]
  have c: "fst (handle (PostSlots ''s2'' demo_slots) (run [PostSession demo_session] initial_store)) =
     Inl (HTTPException 404 ''Session not found'')"
    using conjunct2 [OF b] by simp
  note d = mp [OF conjunct2 [OF t] c]
  from a conjunct1 [OF b] c conjunct2 [OF conjunct2 [OF d]] show ?thesis by (intro conjI)
qed

text \<open>
  C8. A sequence of \<^verbatim>\<open>GET /profile/{user_id}\<close> and \<^verbatim>\<open>GET /session/{session_id}\<close> requests
  leaves the store as it was: both dictionaries are the same, and so are the answers of
  \<^verbatim>\<open>/debug/users\<close> and the counts of \<^verbatim>\<open>/health\<close>.
\<close>

theorem reads_leave_store:
  assumes "list_all is_store_read rs"
  shows "run rs st = st \<and>
         user_profiles (run rs st) = user_profiles st \<and>
         sessions (run rs st) = sessions st \<and>
         list_users (run rs st) = list_users st \<and>
         health now (run rs st) = health now st"
proof -
  from assms have "run rs st = st"
    by (induction rs) (simp_all add: handle_read)
  then show ?thesis by simp
qed

theorem reads_leave_store_witness:
  "list_all is_store_read
     [GetProfile ''nobody'', GetSession ''s9'', GetProfile ''user_demo_123'', GetSession ''s1''] \<and>
   run [GetProfile ''nobody'', GetSession ''s9'', GetProfile ''user_demo_123'', GetSession ''s1'']
     (run [PostSession demo_session] initial_store) =
     run [PostSession demo_session] initial_store \<and>
   list_users
     (run [GetProfile ''nobody'', GetSession ''s9'', GetProfile ''user_demo_123'', GetSession ''s1'']
        (run [PostSession demo_session] initial_store)) =
     JObj [(''count'', JInt 1), (''users'', JList [JStr ''user_demo_123''])]"
proof -
  have a: "list_all is_store_read
     [GetProfile ''nobody'', GetSession ''s9'', GetProfile ''user_demo_123'', GetSession ''s1'']"
    by simp
  have b: "list_users (run [PostSession demo_session] initial_store) =
     JObj [(''count'', JInt 1), (''users'', JList [JStr ''user_demo_123''])]"
    unfolding demo_store by (simp add: list_users_def dict_len_def dict_keys_def)
  note t = reads_leave_store [OF a, of "run [PostSession demo_session] initial_store"]
  from a conjunct1 [OF t] b show ?thesis
    by (simp only: conjunct1 [OF t] simp_thms)
qed

section \<open>The stores are dictionaries\<close>

lemma keys_distinct_handle:
  assumes "keys_distinct st"
  shows "keys_distinct (snd (handle r st))"
proof (cases r)
  case (PostProfile uid p)
  then show ?thesis using assms
    by (simp only: snd_handle)
      (simp add: keys_distinct_def update_profile_def distinct_dict_setitem)
next
  case (PostSession s)
  then show ?thesis using assms
    by (simp only: snd_handle)
      (simp add: keys_distinct_def update_session_def distinct_dict_setitem)
next
  case (PostSlots sid slots)
  then show ?thesis using assms
    by (simp only: snd_handle)
      (auto simp: keys_distinct_def update_trip_slots_def distinct_dict_setitem
        split: option.splits json.splits)
next
  case PostReset
  then show ?thesis
    by (simp only: snd_handle)
      (simp add: keys_distinct_def reset_data_def init_sample_data_def dict_keys_def)
qed (use assms in simp_all)

lemma keys_distinct_reachable: "keys_distinct (run rs initial_store)"
proof -
  have "keys_distinct st \<Longrightarrow> keys_distinct (run rs st)" for st
    by (induction rs arbitrary: st) (simp_all add: keys_distinct_handle)
  moreover have "keys_distinct initial_store"
    by (simp add: keys_distinct_def initial_store_def init_sample_data_def empty_store_def
        dict_keys_def)
  ultimately show ?thesis .
qed

end
